theory Spec2Isabelle
  imports Complex_Main
begin

section \<open>Python values used by the benchmark core\<close>

text \<open>
  A raised Python exception, as far as the benchmark core inspects it: the name of its
  class (\<^verbatim>\<open>type(e).__name__\<close>), its text (\<^verbatim>\<open>str(e)\<close>), and the answers to the
  \<^verbatim>\<open>isinstance\<close> tests that the \<^verbatim>\<open>except\<close> clauses of the core perform. An
  \<^verbatim>\<open>except C\<close> clause catches \<open>e\<close> exactly when \<open>e\<close> is an instance of \<open>C\<close>;
  an exception that no clause catches leaves the function (\<open>Inl\<close>).
\<close>

record pyexc =
  type_name :: string
  message :: string
  isa_RecursionError :: bool
  isa_MemoryError :: bool
  isa_OverflowError :: bool
  isa_Exception :: bool

definition ValueError :: "string \<Rightarrow> pyexc" where
  "ValueError msg =
     \<lparr>type_name = ''ValueError'', message = msg, isa_RecursionError = False,
      isa_MemoryError = False, isa_OverflowError = False, isa_Exception = True\<rparr>"

definition RecursionError :: "string \<Rightarrow> pyexc" where
  "RecursionError msg =
     \<lparr>type_name = ''RecursionError'', message = msg, isa_RecursionError = True,
      isa_MemoryError = False, isa_OverflowError = False, isa_Exception = True\<rparr>"

text \<open>
  \<^verbatim>\<open>SystemExit\<close> derives from \<^verbatim>\<open>BaseException\<close> and is not an instance of \<^verbatim>\<open>Exception\<close>;
  \<^verbatim>\<open>sys.exit(1)\<close> raises it with the text \<^verbatim>\<open>1\<close>.
\<close>

definition SystemExit :: "string \<Rightarrow> pyexc" where
  "SystemExit msg =
     \<lparr>type_name = ''SystemExit'', message = msg, isa_RecursionError = False,
      isa_MemoryError = False, isa_OverflowError = False, isa_Exception = False\<rparr>"

text \<open>Python's \<^verbatim>\<open>str(n)\<close> for an integer, which an f-string \<^verbatim>\<open>{n}\<close> inserts.\<close>

definition digit_char :: "nat \<Rightarrow> char" where
  "digit_char d = ''0123456789'' ! d"

fun str_nat :: "nat \<Rightarrow> string" where
  "str_nat n = (if n < 10 then [digit_char n] else str_nat (n div 10) @ [digit_char (n mod 10)])"

declare str_nat.simps [simp del]

definition str_int :: "int \<Rightarrow> string" where
  "str_int i = (if i < 0 then CHR ''-'' # str_nat (nat (- i)) else str_nat (nat i))"

section \<open>utils/constants.py\<close>

definition KNOWN_FIBONACCI_items :: "(int \<times> int) list" where
  "KNOWN_FIBONACCI_items =
     [(0, 0), (1, 1), (2, 1), (3, 2), (4, 3), (5, 5), (6, 8), (7, 13), (8, 21), (9, 34),
      (10, 55), (11, 89), (12, 144), (13, 233), (14, 377), (15, 610), (16, 987),
      (17, 1597), (18, 2584), (19, 4181), (20, 6765),
      (25, 75025), (30, 832040), (35, 9227465), (40, 102334155), (45, 1134903170),
      (50, 12586269025), (55, 139583862445), (60, 1548008755920),
      (70, 190392490709135), (80, 23416728348467685), (90, 2880067194370816120),
      (100, 354224848179261915075),
      (150, 9969216677189303386214405760200),
      (200, 280571172992510140037611932413038677189525),
      (300, 222232244629420445529739893461909967206666939096499764990979600),
      (500, 139423224561697880139724382870407283950070256587697307264108962948325571622863290691557658876222521294125)]"

text \<open>The dictionary literal: its keys are pairwise distinct, so it is the map of its items.\<close>

definition KNOWN_FIBONACCI :: "int \<rightharpoonup> int" where
  "KNOWN_FIBONACCI = map_of KNOWN_FIBONACCI_items"

section \<open>benchmarking/validators.py\<close>

definition validate_result :: "int \<Rightarrow> int \<Rightarrow> bool" where
  "validate_result n result =
     (case KNOWN_FIBONACCI n of
        Some known \<Rightarrow> result = known
      | None \<Rightarrow> True)"

text \<open>
  \<^verbatim>\<open>compute_fibonacci_reference\<close>: the loop \<^verbatim>\<open>for _ in range(2, n + 1): a, b = b, a + b\<close>
  is a fold over the integers \<open>2, \<dots>, n\<close> that ignores the loop variable.
\<close>

definition compute_fibonacci_reference :: "int \<Rightarrow> pyexc + int" where
  "compute_fibonacci_reference n =
     (if n < 0 then Inl (ValueError ''n must be non-negative'')
      else if n \<le> 1 then Inr n
      else Inr (snd (fold (\<lambda>_ (a, b). (b, a + b)) [2..n] (0, 1))))"

text \<open>
  The Fibonacci numbers as the specification defines them: \<open>F(0) = 0\<close>, \<open>F(1) = 1\<close>,
  \<open>F(n) = F(n-1) + F(n-2)\<close>. This definition follows the specification's words and is
  what the reference implementation is compared with.
\<close>

fun fib_spec :: "nat \<Rightarrow> int" where
  "fib_spec 0 = 0"
| "fib_spec (Suc 0) = 1"
| "fib_spec (Suc (Suc n)) = fib_spec (Suc n) + fib_spec n"

section \<open>benchmarking/timer.py\<close>

text \<open>
  The calls that the benchmark core makes into a technique and into the validation
  predicate, in the order in which they are made. The functions below return this list
  beside their result, so that "is not called" and "is called after" are statements
  about a value.
\<close>

datatype event = SetupCall | Calculate int | Validate int | TeardownCall

record PrecisionTimer =
  duration :: real

record TimingResult =
  count :: int
  max_n :: int
  actual_duration :: real
  error :: "string option"

text \<open>
  \<^verbatim>\<open>time.perf_counter()\<close> is a stream of readings: \<open>clock i\<close> is what the \<open>i\<close>-th call
  returns (counting from \<open>0\<close>) after the timer is entered. Seconds are real numbers.

  The calculation function is the outcome of each call \<^verbatim>\<open>func(n)\<close>: \<open>Inl e\<close> when the
  call raises \<open>e\<close>, \<open>Inr v\<close> when it returns \<open>v\<close>. The loop calls it once for each
  index. The validation predicate is modelled the same way.

  The \<^verbatim>\<open>while\<close> loop of \<^verbatim>\<open>run_for_duration\<close>. Its state is the number \<open>k\<close> of clock
  readings taken so far, the locals \<open>n\<close> and \<open>count\<close>, and the calls made so far. It
  ends with the exception that left the \<^verbatim>\<open>try\<close> block, if one did, and the locals
  \<open>n\<close>, \<open>count\<close> and \<open>error_msg\<close>. A loop that never ends has no result (\<open>None\<close>).
\<close>

partial_function (option) while_loop ::
  "(nat \<Rightarrow> real) \<Rightarrow> real \<Rightarrow> (int \<Rightarrow> pyexc + 'a) \<Rightarrow> (int \<Rightarrow> 'a \<Rightarrow> pyexc + bool) option \<Rightarrow>
   real \<Rightarrow> nat \<Rightarrow> int \<Rightarrow> int \<Rightarrow> event list \<Rightarrow>
   (pyexc option \<times> nat \<times> int \<times> int \<times> string option \<times> event list) option"
where
  "while_loop clock dur func validate_func start_time k n cnt evs =
     (if clock k - start_time < dur then
        (case func n of
           Inl e \<Rightarrow> Some (Some e, Suc k, n, cnt, None, evs @ [Calculate n])
         | Inr result \<Rightarrow>
             (case validate_func of
                None \<Rightarrow>
                  while_loop clock dur func validate_func start_time (Suc k) (n + 1) (cnt + 1)
                    (evs @ [Calculate n])
              | Some vf \<Rightarrow>
                  (case vf n result of
                     Inl e \<Rightarrow> Some (Some e, Suc k, n, cnt, None, evs @ [Calculate n, Validate n])
                   | Inr ok \<Rightarrow>
                       if \<not> ok then
                         Some (None, Suc k, n, cnt, Some (''Validation failed at n='' @ str_int n),
                               evs @ [Calculate n, Validate n])
                       else
                         while_loop clock dur func validate_func start_time (Suc k) (n + 1) (cnt + 1)
                           (evs @ [Calculate n, Validate n]))))
      else Some (None, Suc k, n, cnt, None, evs))"

text \<open>
  The \<^verbatim>\<open>except\<close> clauses of \<^verbatim>\<open>run_for_duration\<close>, tried in the order they are
  written: the first clause whose class the exception is an instance of sets
  \<^verbatim>\<open>error_msg\<close>; an exception that is not an instance of \<^verbatim>\<open>Exception\<close> is not caught.
\<close>

definition except_clauses :: "pyexc \<Rightarrow> int \<Rightarrow> pyexc + string" where
  "except_clauses e n =
     (if isa_RecursionError e then Inr (''RecursionError at n='' @ str_int n)
      else if isa_MemoryError e then Inr (''MemoryError at n='' @ str_int n)
      else if isa_OverflowError e then Inr (''OverflowError at n='' @ str_int n)
      else if isa_Exception e then
        Inr (type_name e @ '' at n='' @ str_int n @ '': '' @ message e)
      else Inl e)"

definition run_for_duration ::
  "PrecisionTimer \<Rightarrow> (nat \<Rightarrow> real) \<Rightarrow> (int \<Rightarrow> pyexc + 'a) \<Rightarrow> int \<Rightarrow>
   (int \<Rightarrow> 'a \<Rightarrow> pyexc + bool) option \<Rightarrow> ((pyexc + TimingResult) \<times> event list) option"
where
  "run_for_duration self clock func start_n validate_func =
     (let start_time = clock 0 in
      case while_loop clock (duration self) func validate_func start_time 1 start_n 0 [] of
        None \<Rightarrow> None
      | Some (raised, k, n, cnt, error_msg, evs) \<Rightarrow>
          (case (case raised of
                   None \<Rightarrow> Inr error_msg
                 | Some e \<Rightarrow> map_sum id Some (except_clauses e n)) of
             Inl e \<Rightarrow> Some (Inl e, evs)
           | Inr error_msg' \<Rightarrow>
               Some (Inr \<lparr>TimingResult.count = cnt,
                          max_n = (if cnt > 0 then n - 1 else 0),
                          actual_duration = clock k - start_time,
                          error = error_msg'\<rparr>, evs)))"

subsection \<open>Notions for stating what the loop does\<close>

text \<open>
  An iteration at index \<open>n\<close> passes when \<^verbatim>\<open>func(n)\<close> returns and the validation
  predicate, if one is supplied, returns true. \<open>passes_until\<close> says that the first \<open>j\<close>
  iterations are entered (the clock reading of each loop test is inside the duration)
  and pass. \<open>events_until\<close> is the list of calls those iterations make, and
  \<open>calc_calls\<close> picks the indices of the calls of \<^verbatim>\<open>func\<close> out of a list of calls.
  \<open>loop_post\<close> relates the state in which the loop is entered to the one it ends with.
\<close>

definition call_passes ::
  "(int \<Rightarrow> pyexc + 'a) \<Rightarrow> (int \<Rightarrow> 'a \<Rightarrow> pyexc + bool) option \<Rightarrow> int \<Rightarrow> bool" where
  "call_passes func validate_func n =
     (case func n of
        Inl e \<Rightarrow> False
      | Inr result \<Rightarrow>
          (case validate_func of None \<Rightarrow> True | Some vf \<Rightarrow> vf n result = Inr True))"

definition call_events :: "(int \<Rightarrow> 'a \<Rightarrow> pyexc + bool) option \<Rightarrow> int \<Rightarrow> event list" where
  "call_events validate_func n =
     (case validate_func of None \<Rightarrow> [Calculate n] | Some vf \<Rightarrow> [Calculate n, Validate n])"

definition passes_until ::
  "(nat \<Rightarrow> real) \<Rightarrow> real \<Rightarrow> (int \<Rightarrow> pyexc + 'a) \<Rightarrow> (int \<Rightarrow> 'a \<Rightarrow> pyexc + bool) option \<Rightarrow>
   int \<Rightarrow> nat \<Rightarrow> bool" where
  "passes_until clock dur func validate_func start_n j =
     (\<forall>i<j. clock (Suc i) - clock 0 < dur \<and> call_passes func validate_func (start_n + int i))"

definition events_until :: "(int \<Rightarrow> 'a \<Rightarrow> pyexc + bool) option \<Rightarrow> int \<Rightarrow> nat \<Rightarrow> event list" where
  "events_until validate_func start_n j =
     concat (map (\<lambda>i. call_events validate_func (start_n + int i)) [0..<j])"

fun calc_calls :: "event list \<Rightarrow> int list" where
  "calc_calls [] = []"
| "calc_calls (Calculate n # es) = n # calc_calls es"
| "calc_calls (e # es) = calc_calls es"

definition loop_post ::
  "(int \<Rightarrow> pyexc + 'a) \<Rightarrow> (int \<Rightarrow> 'a \<Rightarrow> pyexc + bool) option \<Rightarrow> nat \<Rightarrow> int \<Rightarrow> int \<Rightarrow> event list \<Rightarrow>
   pyexc option \<times> nat \<times> int \<times> int \<times> string option \<times> event list \<Rightarrow> bool" where
  "loop_post func vfo k n cnt evs y =
     (case y of (raised, k', n', cnt', msg, evs') \<Rightarrow>
        cnt \<le> cnt' \<and> n' - cnt' = n - cnt \<and> int k' = int k + 1 + (n' - n) \<and>
        (\<forall>i. n \<le> i \<and> i < n' \<longrightarrow> call_passes func vfo i) \<and>
        (case raised of
           Some e \<Rightarrow>
             msg = None \<and> calc_calls evs' = calc_calls evs @ [n..n'] \<and>
             (func n' = Inl e \<or>
              (\<exists>res vf. func n' = Inr res \<and> vfo = Some vf \<and> vf n' res = Inl e))
         | None \<Rightarrow>
             (case msg of
                None \<Rightarrow> calc_calls evs' = calc_calls evs @ [n..n' - 1]
              | Some m \<Rightarrow>
                  m = ''Validation failed at n='' @ str_int n' \<and>
                  calc_calls evs' = calc_calls evs @ [n..n'] \<and>
                  (\<exists>res vf. func n' = Inr res \<and> vfo = Some vf \<and> vf n' res = Inr False))))"

section \<open>utils/base_technique.py\<close>

text \<open>
  A technique: its four descriptive properties, the outcome of each \<^verbatim>\<open>calculate(n)\<close>,
  and the outcome of the one call of \<^verbatim>\<open>setup()\<close> and of \<^verbatim>\<open>teardown()\<close> (\<open>None\<close>: the hook returns;
  \<open>Some e\<close>: it raises \<open>e\<close>).
\<close>

record FibonacciTechnique =
  name :: string
  description :: string
  time_complexity :: string
  space_complexity :: string
  calculate :: "int \<Rightarrow> pyexc + int"
  setup_hook :: "pyexc option"
  teardown_hook :: "pyexc option"

section \<open>benchmarking/benchmark_runner.py\<close>

text \<open>The field \<open>timestamp\<close> holds \<^verbatim>\<open>datetime.now()\<close> of the moment of construction.\<close>

record 't BenchmarkResult =
  technique_name :: string
  description :: string
  count :: int
  max_n :: int
  duration :: real
  time_complexity :: string
  space_complexity :: string
  error :: "string option"
  timestamp :: 't

record 't BenchmarkSummary =
  results :: "'t BenchmarkResult list"
  total_duration :: real
  timestamp :: 't

text \<open>
  Python's \<^verbatim>\<open>sorted(xs, key=key, reverse=reverse)\<close>: a stable sort by key; with
  \<^verbatim>\<open>reverse\<close> the list is reversed, sorted, and reversed again, which is how the
  order of elements with equal keys is kept. It returns a new list.
\<close>

definition sorted_builtin :: "('a \<Rightarrow> int) \<Rightarrow> bool \<Rightarrow> 'a list \<Rightarrow> 'a list" where
  "sorted_builtin key reverse xs =
     (if reverse then rev (sort_key key (rev xs)) else sort_key key xs)"

text \<open>
  Python's \<^verbatim>\<open>max(xs, key=key)\<close> on a sequence with first element \<open>x\<close>: the candidate
  is replaced only by an element whose key is strictly greater.
\<close>

fun max_builtin :: "('a \<Rightarrow> int) \<Rightarrow> 'a \<Rightarrow> 'a list \<Rightarrow> 'a" where
  "max_builtin key best [] = best"
| "max_builtin key best (x # xs) = max_builtin key (if key x > key best then x else best) xs"

definition get_sorted_by_count :: "'t BenchmarkSummary \<Rightarrow> bool \<Rightarrow> 't BenchmarkResult list" where
  "get_sorted_by_count self descending =
     sorted_builtin (\<lambda>r. BenchmarkResult.count r) descending (results self)"

definition get_sorted_by_max_n :: "'t BenchmarkSummary \<Rightarrow> bool \<Rightarrow> 't BenchmarkResult list" where
  "get_sorted_by_max_n self descending =
     sorted_builtin (\<lambda>r. BenchmarkResult.max_n r) descending (results self)"

definition get_fastest :: "'t BenchmarkSummary \<Rightarrow> 't BenchmarkResult option" where
  "get_fastest self =
     (case results self of
        [] \<Rightarrow> None
      | r # rs \<Rightarrow> Some (max_builtin (\<lambda>r. BenchmarkResult.count r) r rs))"

definition get_highest_n :: "'t BenchmarkSummary \<Rightarrow> 't BenchmarkResult option" where
  "get_highest_n self =
     (case results self of
        [] \<Rightarrow> None
      | r # rs \<Rightarrow> Some (max_builtin (\<lambda>r. BenchmarkResult.max_n r) r rs))"

record BenchmarkRunner =
  duration :: real
  validate :: bool
  verbose :: bool
  timer :: PrecisionTimer

definition BenchmarkRunner_init :: "real \<Rightarrow> bool \<Rightarrow> bool \<Rightarrow> BenchmarkRunner" where
  "BenchmarkRunner_init dur val verb =
     \<lparr>BenchmarkRunner.duration = dur, validate = val, verbose = verb,
      timer = \<lparr>PrecisionTimer.duration = dur\<rparr>\<rparr>"

text \<open>
  \<^verbatim>\<open>run_single\<close>. \<open>now\<close> is the reading of \<^verbatim>\<open>datetime.now()\<close> when the result is
  built. An exception that is not an instance of \<^verbatim>\<open>Exception\<close> is caught by neither
  \<^verbatim>\<open>try\<close> statement and leaves the function.
\<close>

text \<open>
  Both \<^verbatim>\<open>return\<close> statements of \<^verbatim>\<open>run_single\<close> call the constructor of
  \<^verbatim>\<open>BenchmarkResult\<close> with the four properties of the technique; \<open>make_result\<close> is that call.
\<close>

definition make_result ::
  "FibonacciTechnique \<Rightarrow> int \<Rightarrow> int \<Rightarrow> real \<Rightarrow> string option \<Rightarrow> 't \<Rightarrow> 't BenchmarkResult" where
  "make_result technique c m d err now =
     \<lparr>technique_name = name technique,
      description = FibonacciTechnique.description technique,
      count = c, max_n = m, duration = d,
      time_complexity = FibonacciTechnique.time_complexity technique,
      space_complexity = FibonacciTechnique.space_complexity technique,
      error = err, timestamp = now\<rparr>"

definition run_single ::
  "BenchmarkRunner \<Rightarrow> (nat \<Rightarrow> real) \<Rightarrow> 't \<Rightarrow> FibonacciTechnique \<Rightarrow>
   ((pyexc + 't BenchmarkResult) \<times> event list) option"
where
  "run_single self clock now technique =
     (case setup_hook technique of
        Some e \<Rightarrow>
          if isa_Exception e then
            Some (Inr (make_result technique 0 0 0 (Some (''Setup failed: '' @ message e)) now),
                  [SetupCall])
          else Some (Inl e, [SetupCall])
      | None \<Rightarrow>
          (let validate_func =
                 (if validate self then Some (\<lambda>n result. Inr (validate_result n result))
                  else None)
           in case run_for_duration (timer self) clock (calculate technique) 0 validate_func of
                None \<Rightarrow> None
              | Some (Inl e, evs) \<Rightarrow> Some (Inl e, SetupCall # evs)
              | Some (Inr timing_result, evs) \<Rightarrow>
                  (case teardown_hook technique of
                     Some e \<Rightarrow>
                       if isa_Exception e then
                         Some (Inr (make_result technique
                                      (TimingResult.count timing_result)
                                      (TimingResult.max_n timing_result)
                                      (actual_duration timing_result)
                                      (TimingResult.error timing_result) now),
                               SetupCall # evs @ [TeardownCall])
                       else Some (Inl e, SetupCall # evs @ [TeardownCall])
                   | None \<Rightarrow>
                       Some (Inr (make_result technique
                                    (TimingResult.count timing_result)
                                    (TimingResult.max_n timing_result)
                                    (actual_duration timing_result)
                                    (TimingResult.error timing_result) now),
                             SetupCall # evs @ [TeardownCall]))))"

section \<open>Concrete inputs\<close>

text \<open>Values on which the definitions above are evaluated further down.\<close>

definition example_result :: "string \<Rightarrow> int \<Rightarrow> int \<Rightarrow> unit BenchmarkResult" where
  "example_result nm c m =
     \<lparr>technique_name = nm, description = ''example'', count = c, max_n = m, duration = 1,
      time_complexity = ''O(n)'', space_complexity = ''O(1)'', error = None, timestamp = ()\<rparr>"

definition example_technique :: "pyexc option \<Rightarrow> pyexc option \<Rightarrow> FibonacciTechnique" where
  "example_technique s t =
     \<lparr>name = ''Reference'', description = ''Linear iteration'',
      time_complexity = ''O(n)'', space_complexity = ''O(1)'',
      calculate = compute_fibonacci_reference, setup_hook = s, teardown_hook = t\<rparr>"

section \<open>The reference validator\<close>

lemma dom_KNOWN_FIBONACCI: "dom KNOWN_FIBONACCI = fst ` set KNOWN_FIBONACCI_items"
  by (simp add: KNOWN_FIBONACCI_def dom_map_of_conv_image_fst)

lemma KNOWN_FIBONACCI_item:
  "KNOWN_FIBONACCI k = Some v \<Longrightarrow> (k, v) \<in> set KNOWN_FIBONACCI_items"
  unfolding KNOWN_FIBONACCI_def by (rule map_of_SomeD)

text \<open>
  C6. \<open>validate_result n v\<close> is the comparison of \<open>v\<close> with the tabulated value when
  \<open>n\<close> is a key of the known-value table, and is true for every \<open>n\<close> that is not a key,
  whatever \<open>v\<close> is.
\<close>

theorem validate_result_policy:
  "(n \<in> dom KNOWN_FIBONACCI \<longrightarrow> validate_result n v = (v = the (KNOWN_FIBONACCI n))) \<and>
   (n \<notin> dom KNOWN_FIBONACCI \<longrightarrow> validate_result n v = True)"
  by (auto simp: validate_result_def domIff)

theorem validate_result_policy_witness:
  "(10 \<in> dom KNOWN_FIBONACCI \<and> validate_result 10 55 \<and> \<not> validate_result 10 56) \<and>
   (21 \<notin> dom KNOWN_FIBONACCI \<and> validate_result 21 0 \<and> validate_result 21 10946)"
proof -
  have k: "KNOWN_FIBONACCI 10 = Some 55" "KNOWN_FIBONACCI 21 = None"
    by (simp_all add: KNOWN_FIBONACCI_def KNOWN_FIBONACCI_items_def)
  have d: "10 \<in> dom KNOWN_FIBONACCI" "21 \<notin> dom KNOWN_FIBONACCI"
    using k by (simp_all add: domIff)
  show ?thesis
    using d k validate_result_policy [of 10 55] validate_result_policy [of 10 56]
      validate_result_policy [of 21 0] validate_result_policy [of 21 10946]
    by simp
qed

section \<open>The reference computation\<close>

lemma fib_loop:
  "fold (\<lambda>_ (a, b). (b, a + b)) [2..int m + 1] (0, 1) = (fib_spec m, fib_spec (Suc m))"
proof (induction m)
  case 0
  show ?case by simp
next
  case (Suc m)
  have "[2..int (Suc m) + 1] = [2..int m + 1] @ [int m + 2]"
    using upto_rec2 [of 2 "int m + 2"] by (simp add: add.commute)
  with Suc show ?case by simp
qed

lemma compute_fibonacci_reference_fib:
  assumes "0 \<le> n"
  shows "compute_fibonacci_reference n = Inr (fib_spec (nat n))"
proof (cases "n \<le> 1")
  case True
  with assms have "n = 0 \<or> n = 1" by auto
  then show ?thesis by (auto simp: compute_fibonacci_reference_def)
next
  case False
  obtain m where "n = int m + 1" "nat n = Suc m"
    using False by (intro that [of "nat n - 1"]) auto
  with False show ?thesis
    by (simp add: compute_fibonacci_reference_def fib_loop)
qed

lemma compute_fibonacci_reference_items:
  "list_all (\<lambda>(k, v). compute_fibonacci_reference k = Inr v) KNOWN_FIBONACCI_items"
  by code_simp

lemma KNOWN_FIBONACCI_keys:
  "fst ` set KNOWN_FIBONACCI_items =
     {0..20} \<union> {25, 30, 35, 40, 45, 50, 55, 60, 70, 80, 90, 100, 150, 200, 300, 500}"
proof -
  have "{0..20::int} = set [0..20]" by simp
  also have "[0..20::int] = [0,1,2,3,4,5,6,7,8,9,10,11,12,13,14,15,16,17,18,19,20]"
    by code_simp
  finally show ?thesis
    by (simp add: KNOWN_FIBONACCI_items_def) blast
qed

text \<open>
  C7. \<open>compute_fibonacci_reference n\<close> raises \<^verbatim>\<open>ValueError\<close> for every \<open>n < 0\<close>; for
  every \<open>n \<ge> 0\<close> it returns the Fibonacci number \<open>F(n)\<close> of the recurrence
  \<open>F(0) = 0\<close>, \<open>F(1) = 1\<close>, \<open>F(n) = F(n-1) + F(n-2)\<close>; and at every key \<open>k\<close> of the
  known-value table (\<open>0\<close> to \<open>20\<close>, then the checkpoints up to \<open>500\<close>) it returns the
  tabulated value.
\<close>

theorem compute_fibonacci_reference_correct:
  "(n < 0 \<longrightarrow> compute_fibonacci_reference n = Inl (ValueError ''n must be non-negative'')) \<and>
   (0 \<le> n \<longrightarrow> compute_fibonacci_reference n = Inr (fib_spec (nat n))) \<and>
   (\<forall>k \<in> dom KNOWN_FIBONACCI.
      compute_fibonacci_reference k = Inr (the (KNOWN_FIBONACCI k))) \<and>
   dom KNOWN_FIBONACCI =
     {0..20} \<union> {25, 30, 35, 40, 45, 50, 55, 60, 70, 80, 90, 100, 150, 200, 300, 500}"
proof (intro conjI impI ballI)
  assume "n < 0"
  then show "compute_fibonacci_reference n = Inl (ValueError ''n must be non-negative'')"
    by (simp add: compute_fibonacci_reference_def)
next
  assume "0 \<le> n"
  then show "compute_fibonacci_reference n = Inr (fib_spec (nat n))"
    by (rule compute_fibonacci_reference_fib)
next
  fix k
  assume "k \<in> dom KNOWN_FIBONACCI"
  then obtain v where v: "KNOWN_FIBONACCI k = Some v" by auto
  then have "(k, v) \<in> set KNOWN_FIBONACCI_items" by (rule KNOWN_FIBONACCI_item)
  with compute_fibonacci_reference_items have "compute_fibonacci_reference k = Inr v"
    by (auto simp: list_all_iff)
  with v show "compute_fibonacci_reference k = Inr (the (KNOWN_FIBONACCI k))" by simp
next
  show "dom KNOWN_FIBONACCI =
     {0..20} \<union> {25, 30, 35, 40, 45, 50, 55, 60, 70, 80, 90, 100, 150, 200, 300, 500}"
    by (simp only: dom_KNOWN_FIBONACCI KNOWN_FIBONACCI_keys)
qed

theorem compute_fibonacci_reference_correct_witness:
  "compute_fibonacci_reference (- 1) = Inl (ValueError ''n must be non-negative'') \<and>
   compute_fibonacci_reference 10 = Inr 55 \<and>
   (500 \<in> dom KNOWN_FIBONACCI \<and>
    compute_fibonacci_reference 500 = Inr 139423224561697880139724382870407283950070256587697307264108962948325571622863290691557658876222521294125)"
proof -
  have f: "fib_spec (nat 10) = 55" by code_simp
  have k: "KNOWN_FIBONACCI 500 = Some 139423224561697880139724382870407283950070256587697307264108962948325571622863290691557658876222521294125"
    by (simp add: KNOWN_FIBONACCI_def KNOWN_FIBONACCI_items_def)
  then have d: "500 \<in> dom KNOWN_FIBONACCI" by (simp add: domIff)
  show ?thesis
    using compute_fibonacci_reference_correct [of "- 1"]
      compute_fibonacci_reference_correct [of 10] f k d
    by auto
qed

section \<open>The timing loop\<close>

lemma while_loop_step:
  assumes "clock k - st < dur" and "call_passes func vfo n"
  shows "while_loop clock dur func vfo st k n cnt evs =
         while_loop clock dur func vfo st (Suc k) (n + 1) (cnt + 1) (evs @ call_events vfo n)"
  using assms
  by (subst while_loop.simps)
     (auto simp: call_passes_def call_events_def split: sum.splits option.splits)

lemma while_loop_steps:
  assumes "\<forall>i<j. clock (k + i) - st < dur \<and> call_passes func vfo (n + int i)"
  shows "while_loop clock dur func vfo st k n cnt evs =
         while_loop clock dur func vfo st (k + j) (n + int j) (cnt + int j)
           (evs @ concat (map (\<lambda>i. call_events vfo (n + int i)) [0..<j]))"
  using assms
proof (induction j)
  case 0
  show ?case by simp
next
  case (Suc j)
  then have "while_loop clock dur func vfo st k n cnt evs =
         while_loop clock dur func vfo st (k + j) (n + int j) (cnt + int j)
           (evs @ concat (map (\<lambda>i. call_events vfo (n + int i)) [0..<j]))"
    by simp
  also have "\<dots> = while_loop clock dur func vfo st (Suc (k + j)) (n + int j + 1) (cnt + int j + 1)
           ((evs @ concat (map (\<lambda>i. call_events vfo (n + int i)) [0..<j])) @ call_events vfo (n + int j))"
    using Suc.prems by (intro while_loop_step) auto
  finally show ?case by (simp add: ac_simps)
qed

lemma while_loop_returns:
  assumes "\<not> clock (k + d) - st < dur"
  shows "\<exists>y. while_loop clock dur func vfo st k n cnt evs = Some y"
  using assms
proof (induction d arbitrary: k n cnt evs)
  case 0
  then show ?case by (subst while_loop.simps) simp
next
  case (Suc d)
  from Suc.prems have "\<not> clock (Suc k + d) - st < dur" by simp
  from Suc.IH [OF this] show ?case
    by (subst while_loop.simps) (auto split: sum.splits option.splits)
qed

lemma calc_calls_append: "calc_calls (xs @ ys) = calc_calls xs @ calc_calls ys"
  by (induction xs rule: calc_calls.induct) simp_all

lemma loop_post_step:
  assumes "loop_post func vfo (Suc k) (n + 1) (cnt + 1) (evs @ call_events vfo n) y"
      and "call_passes func vfo n"
  shows "loop_post func vfo k n cnt evs y"
proof -
  obtain raised k' n' cnt' msg evs' where y: "y = (raised, k', n', cnt', msg, evs')"
    by (cases y) auto
  from assms(1) have le: "n + 1 \<le> n'"
    by (simp add: loop_post_def y)
  have c: "calc_calls (evs @ call_events vfo n) = calc_calls evs @ [n]"
    by (simp add: calc_calls_append call_events_def split: option.splits)
  have u: "[n..n'] = n # [n + 1..n']" "[n..n' - 1] = n # [n + 1..n' - 1]"
    using le by (simp_all add: upto_rec1)
  have p: "\<And>i. n \<le> i \<and> i < n' \<Longrightarrow> call_passes func vfo i"
  proof -
    fix i assume i: "n \<le> i \<and> i < n'"
    show "call_passes func vfo i"
    proof (cases "i = n")
      case True with assms(2) show ?thesis by simp
    next
      case False
      with i have "n + 1 \<le> i \<and> i < n'" by simp
      with assms(1) show ?thesis by (simp add: loop_post_def y)
    qed
  qed
  from assms(1) p show ?thesis
    unfolding loop_post_def y
    by (auto simp: c u split: option.splits)
qed

lemma while_loop_post:
  assumes "while_loop clock dur func vfo st k n cnt evs = Some y"
  shows "loop_post func vfo k n cnt evs y"
proof (rule while_loop.raw_induct
    [where P = "\<lambda>clock dur func vfo st k n cnt evs y. loop_post func vfo k n cnt evs y", OF _ assms])
  fix wl :: "(nat \<Rightarrow> real) \<Rightarrow> real \<Rightarrow> (int \<Rightarrow> pyexc + 'a) \<Rightarrow> (int \<Rightarrow> 'a \<Rightarrow> pyexc + bool) option \<Rightarrow>
   real \<Rightarrow> nat \<Rightarrow> int \<Rightarrow> int \<Rightarrow> event list \<Rightarrow>
   (pyexc option \<times> nat \<times> int \<times> int \<times> string option \<times> event list) option"
  fix clock dur func vfo st k n cnt evs y
  assume IH: "\<And>clock dur func vfo st k n cnt evs y.
     wl clock dur func vfo st k n cnt evs = Some y \<Longrightarrow> loop_post func vfo k n cnt evs y"
  assume body: "(if clock k - st < dur then
        (case func n of
           Inl e \<Rightarrow> Some (Some e, Suc k, n, cnt, None, evs @ [Calculate n])
         | Inr result \<Rightarrow>
             (case vfo of
                None \<Rightarrow> wl clock dur func vfo st (Suc k) (n + 1) (cnt + 1) (evs @ [Calculate n])
              | Some vf \<Rightarrow>
                  (case vf n result of
                     Inl e \<Rightarrow> Some (Some e, Suc k, n, cnt, None, evs @ [Calculate n, Validate n])
                   | Inr ok \<Rightarrow>
                       if \<not> ok then
                         Some (None, Suc k, n, cnt, Some (''Validation failed at n='' @ str_int n),
                               evs @ [Calculate n, Validate n])
                       else
                         wl clock dur func vfo st (Suc k) (n + 1) (cnt + 1)
                           (evs @ [Calculate n, Validate n]))))
      else Some (None, Suc k, n, cnt, None, evs)) = Some y"
  show "loop_post func vfo k n cnt evs y"
  proof (cases "clock k - st < dur")
    case False
    with body show ?thesis by (auto simp: loop_post_def)
  next
    case True
    show ?thesis
    proof (cases "func n")
      case (Inl e)
      with True body show ?thesis
        by (auto simp: loop_post_def calc_calls_append)
    next
      case (Inr result)
      show ?thesis
      proof (cases vfo)
        case None
        with True Inr body
        have "wl clock dur func vfo st (Suc k) (n + 1) (cnt + 1) (evs @ call_events vfo n) = Some y"
          by (simp add: call_events_def)
        then have "loop_post func vfo (Suc k) (n + 1) (cnt + 1) (evs @ call_events vfo n) y"
          by (rule IH)
        moreover have "call_passes func vfo n"
          using Inr None by (simp add: call_passes_def)
        ultimately show ?thesis by (rule loop_post_step)
      next
        case (Some vf)
        show ?thesis
        proof (cases "vf n result")
          case (Inl e)
          with True Inr Some body show ?thesis
            by (auto simp: loop_post_def calc_calls_append)
        next
          case ok: (Inr ok)
          show ?thesis
          proof (cases ok)
            case False
            with True Inr Some ok body show ?thesis
              by (auto simp: loop_post_def calc_calls_append)
          next
            case True': True
            with True Inr Some ok body
            have "wl clock dur func vfo st (Suc k) (n + 1) (cnt + 1) (evs @ call_events vfo n) = Some y"
              by (simp add: call_events_def)
            then have "loop_post func vfo (Suc k) (n + 1) (cnt + 1) (evs @ call_events vfo n) y"
              by (rule IH)
            moreover have "call_passes func vfo n"
              using Inr Some ok True' by (simp add: call_passes_def)
            ultimately show ?thesis by (rule loop_post_step)
          qed
        qed
      qed
    qed
  qed
qed

subsection \<open>Results of \<open>run_for_duration\<close>\<close>

lemma run_for_duration_unfold:
  "run_for_duration self clock func start_n vfo =
     (case while_loop clock (PrecisionTimer.duration self) func vfo (clock 0) 1 start_n 0 [] of
        None \<Rightarrow> None
      | Some (raised, k, n, cnt, error_msg, evs) \<Rightarrow>
          (case (case raised of
                   None \<Rightarrow> Inr error_msg
                 | Some e \<Rightarrow> map_sum id Some (except_clauses e n)) of
             Inl e \<Rightarrow> Some (Inl e, evs)
           | Inr error_msg' \<Rightarrow>
               Some (Inr \<lparr>TimingResult.count = cnt,
                          max_n = (if cnt > 0 then n - 1 else 0),
                          actual_duration = clock k - clock 0,
                          error = error_msg'\<rparr>, evs)))"
  by (simp add: run_for_duration_def Let_def)

lemma while_loop_prefix:
  assumes "passes_until clock dur func vfo start_n j"
  shows "while_loop clock dur func vfo (clock 0) 1 start_n 0 [] =
         while_loop clock dur func vfo (clock 0) (Suc j) (start_n + int j) (int j)
           (events_until vfo start_n j)"
  using while_loop_steps [of j clock 1 "clock 0" dur func vfo start_n 0 "[]"] assms
  by (simp add: passes_until_def events_until_def)

text \<open>
  C8. With a duration that is not positive and a clock that does not run backwards
  between its first two readings, the loop test fails before any call:
  \<^verbatim>\<open>run_for_duration\<close> returns with \<open>count = 0\<close>, \<open>max_n = 0\<close> and no error, and has
  called neither the calculation function nor the validation predicate.
\<close>

theorem run_for_duration_nonpositive:
  assumes "PrecisionTimer.duration self \<le> 0" and "clock 0 \<le> clock 1"
  shows "run_for_duration self clock func start_n validate_func =
         Some (Inr \<lparr>TimingResult.count = 0, max_n = 0,
                    actual_duration = clock 2 - clock 0, error = None\<rparr>, [])"
proof -
  from assms have "\<not> clock 1 - clock 0 < PrecisionTimer.duration self" by simp
  then have "while_loop clock (PrecisionTimer.duration self) func validate_func (clock 0) 1 start_n 0 [] =
             Some (None, Suc 1, start_n, 0, None, [])"
    by (subst while_loop.simps) simp
  then show ?thesis
    by (simp add: run_for_duration_unfold numeral_2_eq_2)
qed

text \<open>
  C1. When the first \<open>j\<close> iterations pass and the validation predicate returns false
  at the next index \<open>start_n + j\<close>, \<open>run_for_duration\<close> stops there: the calls of that
  iteration are the last ones, \<open>count\<close> is \<open>j\<close> (the rejected call is not counted) and
  the error is \<^verbatim>\<open>Validation failed at n=\<close> followed by the failing index. With start
  index \<open>0\<close> and the first rejection at the fifth call, \<open>count = 4\<close>.
\<close>

theorem run_for_duration_validation_failure:
  assumes "passes_until clock (PrecisionTimer.duration self) func (Some vf) start_n j"
      and "clock (Suc j) - clock 0 < PrecisionTimer.duration self"
      and "func (start_n + int j) = Inr result"
      and "vf (start_n + int j) result = Inr False"
  shows "run_for_duration self clock func start_n (Some vf) =
         Some (Inr \<lparr>TimingResult.count = int j,
                    max_n = (if 0 < j then start_n + int j - 1 else 0),
                    actual_duration = clock (j + 2) - clock 0,
                    error = Some (''Validation failed at n='' @ str_int (start_n + int j))\<rparr>,
               events_until (Some vf) start_n j @
                 [Calculate (start_n + int j), Validate (start_n + int j)])"
proof -
  have "while_loop clock (PrecisionTimer.duration self) func (Some vf) (clock 0) (Suc j)
          (start_n + int j) (int j) (events_until (Some vf) start_n j) =
        Some (None, Suc (Suc j), start_n + int j, int j,
              Some (''Validation failed at n='' @ str_int (start_n + int j)),
              events_until (Some vf) start_n j @
                [Calculate (start_n + int j), Validate (start_n + int j)])"
    using assms(2-4) by (subst while_loop.simps) simp
  with while_loop_prefix [OF assms(1)] show ?thesis
    by (simp add: run_for_duration_unfold)
qed


theorem run_for_duration_nonpositive_witness:
  "PrecisionTimer.duration \<lparr>PrecisionTimer.duration = 0\<rparr> \<le> 0 \<and> real 0 \<le> real 1 \<and>
   run_for_duration \<lparr>PrecisionTimer.duration = 0\<rparr> real
       (\<lambda>n. Inl (ValueError ''never raised'') :: pyexc + int) 7 None =
     Some (Inr \<lparr>TimingResult.count = 0, max_n = 0, actual_duration = 2, error = None\<rparr>, [])"
  using run_for_duration_nonpositive
    [where self = "\<lparr>PrecisionTimer.duration = 0\<rparr>" and clock = real
       and func = "\<lambda>n. Inl (ValueError ''never raised'') :: pyexc + int"
       and start_n = 7 and validate_func = None]
  by simp

theorem run_for_duration_validation_failure_witness:
  "run_for_duration \<lparr>PrecisionTimer.duration = 1\<rparr> (\<lambda>k. real k / 10)
       (\<lambda>n. Inr n :: pyexc + int) 0 (Some (\<lambda>n r. Inr (n \<noteq> 4))) =
     Some (Inr \<lparr>TimingResult.count = 4, max_n = 3, actual_duration = 6 / 10,
                error = Some ''Validation failed at n=4''\<rparr>,
           [Calculate 0, Validate 0, Calculate 1, Validate 1, Calculate 2, Validate 2,
            Calculate 3, Validate 3, Calculate 4, Validate 4])"
proof -
  have p: "passes_until (\<lambda>k. real k / 10) (PrecisionTimer.duration \<lparr>PrecisionTimer.duration = 1\<rparr>)
             (\<lambda>n. Inr n :: pyexc + int) (Some (\<lambda>n r. Inr (n \<noteq> 4))) 0 4"
    by (auto simp: passes_until_def call_passes_def)
  have e: "events_until (Some (\<lambda>n (r::int). Inr (n \<noteq> 4) :: pyexc + bool)) 0 4 =
           [Calculate 0, Validate 0, Calculate 1, Validate 1, Calculate 2, Validate 2,
            Calculate 3, Validate 3]"
    by (simp add: events_until_def call_events_def eval_nat_numeral)
  have s: "str_int 4 = ''4''"
    by (simp add: str_int_def str_nat.simps digit_char_def)
  show ?thesis
    using run_for_duration_validation_failure
      [where self = "\<lparr>PrecisionTimer.duration = 1\<rparr>" and clock = "\<lambda>k. real k / 10"
         and func = "\<lambda>n. Inr n :: pyexc + int" and vf = "\<lambda>n r. Inr (n \<noteq> 4)"
         and start_n = 0 and j = 4 and result = 4, OF p]
    by (simp add: e s)
qed

lemma run_for_duration_result:
  assumes "run_for_duration self clock func start_n vfo = Some (Inr r, evs)"
  shows "\<exists>raised k n cnt msg.
    while_loop clock (PrecisionTimer.duration self) func vfo (clock 0) 1 start_n 0 [] =
       Some (raised, k, n, cnt, msg, evs) \<and>
    TimingResult.count r = cnt \<and>
    TimingResult.max_n r = (if cnt > 0 then n - 1 else 0) \<and>
    actual_duration r = clock k - clock 0 \<and>
    (case raised of
       None \<Rightarrow> TimingResult.error r = msg
     | Some e \<Rightarrow> \<exists>m. except_clauses e n = Inr m \<and> TimingResult.error r = Some m)"
proof (cases "while_loop clock (PrecisionTimer.duration self) func vfo (clock 0) 1 start_n 0 []")
  case None
  with assms show ?thesis by (simp add: run_for_duration_unfold)
next
  case (Some y)
  obtain raised k n cnt msg evs' where y: "y = (raised, k, n, cnt, msg, evs')"
    by (cases y) auto
  show ?thesis
  proof (cases raised)
    case None
    with assms Some y show ?thesis
      by (auto simp: run_for_duration_unfold)
  next
    case e: (Some e)
    show ?thesis
    proof (cases "except_clauses e n")
      case (Inl a)
      with assms Some y e show ?thesis by (simp add: run_for_duration_unfold)
    next
      case (Inr m)
      with assms Some y e show ?thesis by (auto simp: run_for_duration_unfold)
    qed
  qed
qed



lemma str_int_small:
  "str_int 0 = ''0''" "str_int 4 = ''4''" "str_int 7 = ''7''" "str_int (- 1) = ''-1''"
  by (simp_all add: str_int_def str_nat.simps digit_char_def)


lemma except_clauses_index:
  assumes "except_clauses e n = Inr m"
  shows "\<exists>pre post. m = pre @ '' at n='' @ str_int n @ post"
proof -
  consider (r) "m = ''RecursionError at n='' @ str_int n"
    | (m) "m = ''MemoryError at n='' @ str_int n"
    | (o) "m = ''OverflowError at n='' @ str_int n"
    | (x) "m = type_name e @ '' at n='' @ str_int n @ '': '' @ message e"
    using assms unfolding except_clauses_def by (auto split: if_splits)
  then show ?thesis
  proof cases
    case r
    then have "m = ''RecursionError'' @ '' at n='' @ str_int n @ []" by simp
    then show ?thesis by blast
  next
    case m
    then have "m = ''MemoryError'' @ '' at n='' @ str_int n @ []" by simp
    then show ?thesis by blast
  next
    case o
    then have "m = ''OverflowError'' @ '' at n='' @ str_int n @ []" by simp
    then show ?thesis by blast
  next
    case x
    then show ?thesis by blast
  qed
qed

text \<open>
  C10. Whenever \<open>run_for_duration\<close> returns a result with an error, the failure is at index
  \<open>start_n + count\<close>: the iterations at \<open>start_n, \<dots>, start_n + count - 1\<close> passed, the one at
  \<open>start_n + count\<close> did not, the calculation function was called exactly at
  \<open>start_n, \<dots>, start_n + count\<close>, and the error message is either the validation message
  or the message of an \<^verbatim>\<open>except\<close> clause for that index; in both it names
  \<open>start_n + count\<close> after \<^verbatim>\<open> at n=\<close>.
\<close>

theorem run_for_duration_failure_index:
  assumes "run_for_duration self clock func start_n validate_func = Some (Inr r, evs)"
      and "TimingResult.error r \<noteq> None"
  shows "0 \<le> TimingResult.count r \<and>
         (\<forall>i. start_n \<le> i \<and> i < start_n + TimingResult.count r \<longrightarrow>
              call_passes func validate_func i) \<and>
         \<not> call_passes func validate_func (start_n + TimingResult.count r) \<and>
         calc_calls evs = [start_n..start_n + TimingResult.count r] \<and>
         (TimingResult.error r =
            Some (''Validation failed at n='' @ str_int (start_n + TimingResult.count r)) \<or>
          (\<exists>e m. except_clauses e (start_n + TimingResult.count r) = Inr m \<and>
                 TimingResult.error r = Some m)) \<and>
         (\<exists>pre post. TimingResult.error r =
            Some (pre @ '' at n='' @ str_int (start_n + TimingResult.count r) @ post))"
proof -
  from run_for_duration_result [OF assms(1)] obtain raised k n cnt msg where
    w: "while_loop clock (PrecisionTimer.duration self) func validate_func (clock 0) 1 start_n 0 [] =
       Some (raised, k, n, cnt, msg, evs)"
    and c: "TimingResult.count r = cnt"
    and e: "case raised of
       None \<Rightarrow> TimingResult.error r = msg
     | Some e \<Rightarrow> \<exists>m. except_clauses e n = Inr m \<and> TimingResult.error r = Some m"
    by blast
  from while_loop_post [OF w] have
    p: "0 \<le> cnt" "n = start_n + cnt"
       "\<forall>i. start_n \<le> i \<and> i < n \<longrightarrow> call_passes func validate_func i"
    and q: "case raised of
           Some e \<Rightarrow>
             msg = None \<and> calc_calls evs = [start_n..n] \<and>
             (func n = Inl e \<or>
              (\<exists>res vf. func n = Inr res \<and> validate_func = Some vf \<and> vf n res = Inl e))
         | None \<Rightarrow>
             (case msg of
                None \<Rightarrow> calc_calls evs = [start_n..n - 1]
              | Some m \<Rightarrow>
                  m = ''Validation failed at n='' @ str_int n \<and>
                  calc_calls evs = [start_n..n] \<and>
                  (\<exists>res vf. func n = Inr res \<and> validate_func = Some vf \<and> vf n res = Inr False))"
    by (auto simp: loop_post_def split: option.splits)
  have v: "''Validation failed at n='' @ str_int n = ''Validation failed'' @ '' at n='' @ str_int n @ []"
    by simp
  show ?thesis
  proof (cases raised)
    case (Some ex)
    with e obtain m where m: "except_clauses ex n = Inr m" "TimingResult.error r = Some m"
      by auto
    from q Some have np: "\<not> call_passes func validate_func n"
      by (auto simp: call_passes_def)
    from except_clauses_index [OF m(1)] m(2)
    have "\<exists>pre post. TimingResult.error r = Some (pre @ '' at n='' @ str_int n @ post)"
      by auto
    with p q Some m np c show ?thesis by auto
  next
    case None
    with e assms(2) obtain m where m: "msg = Some m" "TimingResult.error r = Some m"
      by auto
    with q None have f: "m = ''Validation failed at n='' @ str_int n"
      "calc_calls evs = [start_n..n]"
      "\<not> call_passes func validate_func n"
      by (auto simp: call_passes_def)
    from m(2) f(1) v
    have "TimingResult.error r = Some (''Validation failed'' @ '' at n='' @ str_int n @ [])"
      by (simp only:)
    then have "\<exists>pre post. TimingResult.error r = Some (pre @ '' at n='' @ str_int n @ post)"
      by (intro exI)
    with p f m c show ?thesis by auto
  qed
qed


theorem run_for_duration_failure_index_witness:
  "run_for_duration \<lparr>PrecisionTimer.duration = 1\<rparr> (\<lambda>k. real k / 10)
       (\<lambda>n. Inr n :: pyexc + int) 0 (Some (\<lambda>n r. Inr (n \<noteq> 4))) =
     Some (Inr \<lparr>TimingResult.count = 4, max_n = 3, actual_duration = 6 / 10,
                error = Some ''Validation failed at n=4''\<rparr>,
           [Calculate 0, Validate 0, Calculate 1, Validate 1, Calculate 2, Validate 2,
            Calculate 3, Validate 3, Calculate 4, Validate 4]) \<and>
   Some ''Validation failed at n=4'' \<noteq> None \<and>
   \<not> call_passes (\<lambda>n. Inr n :: pyexc + int) (Some (\<lambda>n r. Inr (n \<noteq> 4))) (0 + 4) \<and>
   calc_calls [Calculate 0, Validate 0, Calculate 1, Validate 1, Calculate 2, Validate 2,
            Calculate 3, Validate 3, Calculate 4, Validate 4] = [0..0 + 4]"
proof -
  have r: "run_for_duration \<lparr>PrecisionTimer.duration = 1\<rparr> (\<lambda>k. real k / 10)
       (\<lambda>n. Inr n :: pyexc + int) 0 (Some (\<lambda>n r. Inr (n \<noteq> 4))) =
     Some (Inr \<lparr>TimingResult.count = 4, max_n = 3, actual_duration = 6 / 10,
                error = Some ''Validation failed at n=4''\<rparr>,
           [Calculate 0, Validate 0, Calculate 1, Validate 1, Calculate 2, Validate 2,
            Calculate 3, Validate 3, Calculate 4, Validate 4])"
    by (simp add: run_for_duration_unfold while_loop.simps str_int_small)
  have e: "TimingResult.error \<lparr>TimingResult.count = 4, max_n = 3, actual_duration = 6 / 10,
                error = Some ''Validation failed at n=4''\<rparr> \<noteq> None"
    by simp
  from run_for_duration_failure_index [OF r e] r show ?thesis
    by simp
qed

text \<open>
  C2, as the code has it. When the first \<open>j\<close> iterations pass and the calculation function
  raises \<open>e\<close> at index \<open>n = start_n + j\<close>, where \<open>e\<close> is an instance of one of the four
  classes the \<^verbatim>\<open>except\<close> clauses name, the loop stops with \<open>count = j\<close> and no further
  call, and the error is chosen by the first clause that matches, in the order
  \<^verbatim>\<open>RecursionError\<close>, \<^verbatim>\<open>MemoryError\<close>, \<^verbatim>\<open>OverflowError\<close>, \<^verbatim>\<open>Exception\<close>: it is
  \<^verbatim>\<open>RecursionError at n=<n>\<close>, \<^verbatim>\<open>MemoryError at n=<n>\<close>, \<^verbatim>\<open>OverflowError at n=<n>\<close>, or
  \<^verbatim>\<open><class name> at n=<n>: <str(e)>\<close>. The \<^verbatim>\<open>ValueError\<close> of a negative index takes the
  last form.
\<close>

theorem run_for_duration_fault:
  assumes "passes_until clock (PrecisionTimer.duration self) func validate_func start_n j"
      and "clock (Suc j) - clock 0 < PrecisionTimer.duration self"
      and "func (start_n + int j) = Inl e"
      and "isa_RecursionError e \<or> isa_MemoryError e \<or> isa_OverflowError e \<or> isa_Exception e"
  shows "run_for_duration self clock func start_n validate_func =
         Some (Inr \<lparr>TimingResult.count = int j,
                    max_n = (if 0 < j then start_n + int j - 1 else 0),
                    actual_duration = clock (j + 2) - clock 0,
                    error = Some
                      (if isa_RecursionError e then
                         ''RecursionError at n='' @ str_int (start_n + int j)
                       else if isa_MemoryError e then
                         ''MemoryError at n='' @ str_int (start_n + int j)
                       else if isa_OverflowError e then
                         ''OverflowError at n='' @ str_int (start_n + int j)
                       else type_name e @ '' at n='' @ str_int (start_n + int j) @ '': '' @
                            message e)\<rparr>,
               events_until validate_func start_n j @ [Calculate (start_n + int j)])"
proof -
  have "while_loop clock (PrecisionTimer.duration self) func validate_func (clock 0) (Suc j)
          (start_n + int j) (int j) (events_until validate_func start_n j) =
        Some (Some e, Suc (Suc j), start_n + int j, int j, None,
              events_until validate_func start_n j @ [Calculate (start_n + int j)])"
    using assms(2,3) by (subst while_loop.simps) simp
  with while_loop_prefix [OF assms(1)] assms(4) show ?thesis
    by (auto simp: run_for_duration_unfold except_clauses_def)
qed

theorem run_for_duration_fault_witness:
  "run_for_duration \<lparr>PrecisionTimer.duration = 1\<rparr> (\<lambda>k. real k / 10)
       compute_fibonacci_reference (- 1) (Some (\<lambda>n r. Inr (validate_result n r))) =
     Some (Inr \<lparr>TimingResult.count = 0, max_n = 0, actual_duration = 2 / 10,
                error = Some ''ValueError at n=-1: n must be non-negative''\<rparr>,
           [Calculate (- 1)])"
proof -
  have p: "passes_until (\<lambda>k. real k / 10) (PrecisionTimer.duration \<lparr>PrecisionTimer.duration = 1\<rparr>)
             compute_fibonacci_reference (Some (\<lambda>n r. Inr (validate_result n r))) (- 1) 0"
    by (simp add: passes_until_def)
  have f: "compute_fibonacci_reference (- 1 + int 0) = Inl (ValueError ''n must be non-negative'')"
    by (simp add: compute_fibonacci_reference_def)
  have x: "isa_Exception (ValueError ''n must be non-negative'')"
    by (simp add: ValueError_def)
  show ?thesis
    using run_for_duration_fault
      [where self = "\<lparr>PrecisionTimer.duration = 1\<rparr>" and clock = "\<lambda>k. real k / 10"
         and func = compute_fibonacci_reference
         and validate_func = "Some (\<lambda>n r. Inr (validate_result n r))"
         and start_n = "- 1" and j = 0 and e = "ValueError ''n must be non-negative''", OF p _ f]
      x
    by (simp add: events_until_def str_int_small ValueError_def)
qed

text \<open>
  The tags are the class names of the Python exceptions: a \<^verbatim>\<open>RecursionError\<close> at index
  \<open>0\<close> gives \<^verbatim>\<open>RecursionError at n=0\<close>, which is not the text
  \<^verbatim>\<open>recursion limit exceeded at n=0\<close>.
\<close>

theorem run_for_duration_tag_counterexample:
  "run_for_duration \<lparr>PrecisionTimer.duration = 1\<rparr> (\<lambda>k. real k / 10)
       (\<lambda>n. Inl (RecursionError ''maximum recursion depth exceeded'') :: pyexc + int) 0 None =
     Some (Inr \<lparr>TimingResult.count = 0, max_n = 0, actual_duration = 2 / 10,
                error = Some ''RecursionError at n=0''\<rparr>, [Calculate 0]) \<and>
   ''RecursionError at n=0'' \<noteq> ''recursion limit exceeded at n=0''"
  by (simp add: run_for_duration_unfold while_loop.simps except_clauses_def
      RecursionError_def str_int_small)

section \<open>The summary and the orchestrator\<close>

lemma sorted_builtin_descending:
  "sorted_wrt (\<lambda>a b. key a \<ge> key b) (sorted_builtin key True xs)"
proof -
  have "sorted (map key (sort_key key (rev xs)))" by (rule sorted_sort_key)
  then have "sorted_wrt (\<lambda>a b. key a \<le> key b) (sort_key key (rev xs))"
    by (simp add: sorted_map)
  then show ?thesis
    by (simp add: sorted_builtin_def sorted_wrt_rev)
qed

lemma sorted_builtin_stable:
  "filter (\<lambda>r. key r = k) (sorted_builtin key True xs) = filter (\<lambda>r. key r = k) xs"
proof -
  have "filter (\<lambda>r. key r = k) (rev (sort_key key (rev xs))) =
        rev (filter (\<lambda>r. key r = k) (sort_key key (rev xs)))"
    by (simp add: rev_filter)
  also have "\<dots> = rev (filter (\<lambda>r. key r = k) (rev xs))"
    by (simp only: sort_key_stable)
  also have "\<dots> = filter (\<lambda>r. key r = k) xs"
    by (simp add: rev_filter)
  finally show ?thesis by (simp add: sorted_builtin_def)
qed

lemma max_builtin_find:
  "Some (max_builtin key b xs) =
     find (\<lambda>r. key r = Max (key ` set (b # xs))) (b # xs)"
proof (induction xs arbitrary: b)
  case Nil
  show ?case by simp
next
  case (Cons x xs)
  let ?b = "if key x > key b then x else b"
  have m: "Max (key ` set (?b # xs)) = Max (key ` set (b # x # xs))"
  proof (cases "xs = []")
    case True
    then show ?thesis by (auto simp: max_def)
  next
    case False
    then have ne: "key ` set xs \<noteq> {}" by simp
    show ?thesis
      using ne by (auto simp: Max_insert max_def)
  qed
  have kb: "key b \<le> Max (key ` set (b # x # xs))"
    by (rule Max_ge) simp_all
  have kx: "key x \<le> Max (key ` set (b # x # xs))"
    by (rule Max_ge) simp_all
  have "Some (max_builtin key b (x # xs)) = Some (max_builtin key ?b xs)" by simp
  also have "\<dots> = find (\<lambda>r. key r = Max (key ` set (?b # xs))) (?b # xs)"
    by (rule Cons.IH)
  also have "\<dots> = find (\<lambda>r. key r = Max (key ` set (b # x # xs))) (?b # xs)"
    by (simp only: m)
  also have "\<dots> = find (\<lambda>r. key r = Max (key ` set (b # x # xs))) (b # x # xs)"
    using kb kx by (cases "key x > key b") auto
  finally show ?case .
qed

text \<open>
  C9. The views of a summary are functions of the summary that build new values.
  \<open>get_sorted_by_count\<close> and \<open>get_sorted_by_max_n\<close> (descending) return lists in descending
  order of the key in which, for every key value \<open>k\<close>, the results with key \<open>k\<close> are exactly
  those of \<open>results\<close> in their original order (so the list is a stable rearrangement of
  \<open>results\<close>). \<open>get_fastest\<close> and \<open>get_highest_n\<close> are \<open>None\<close> exactly when \<open>results\<close> is empty
  and otherwise the first result, in the order of \<open>results\<close>, whose \<open>count\<close> (respectively
  \<open>max_n\<close>) is the maximum.
\<close>

theorem summary_views:
  "sorted_wrt (\<lambda>a b. BenchmarkResult.count a \<ge> BenchmarkResult.count b)
     (get_sorted_by_count s True) \<and>
   (\<forall>k. filter (\<lambda>r. BenchmarkResult.count r = k) (get_sorted_by_count s True) =
        filter (\<lambda>r. BenchmarkResult.count r = k) (results s)) \<and>
   sorted_wrt (\<lambda>a b. BenchmarkResult.max_n a \<ge> BenchmarkResult.max_n b)
     (get_sorted_by_max_n s True) \<and>
   (\<forall>k. filter (\<lambda>r. BenchmarkResult.max_n r = k) (get_sorted_by_max_n s True) =
        filter (\<lambda>r. BenchmarkResult.max_n r = k) (results s)) \<and>
   (get_fastest s = None) = (results s = []) \<and>
   (get_highest_n s = None) = (results s = []) \<and>
   get_fastest s =
     find (\<lambda>r. BenchmarkResult.count r = Max (BenchmarkResult.count ` set (results s)))
       (results s) \<and>
   get_highest_n s =
     find (\<lambda>r. BenchmarkResult.max_n r = Max (BenchmarkResult.max_n ` set (results s)))
       (results s)"
proof (intro conjI allI)
  show "sorted_wrt (\<lambda>a b. BenchmarkResult.count a \<ge> BenchmarkResult.count b)
     (get_sorted_by_count s True)"
    unfolding get_sorted_by_count_def by (rule sorted_builtin_descending)
  show "sorted_wrt (\<lambda>a b. BenchmarkResult.max_n a \<ge> BenchmarkResult.max_n b)
     (get_sorted_by_max_n s True)"
    unfolding get_sorted_by_max_n_def by (rule sorted_builtin_descending)
  show "filter (\<lambda>r. BenchmarkResult.count r = k) (get_sorted_by_count s True) =
        filter (\<lambda>r. BenchmarkResult.count r = k) (results s)" for k
    unfolding get_sorted_by_count_def by (rule sorted_builtin_stable)
  show "filter (\<lambda>r. BenchmarkResult.max_n r = k) (get_sorted_by_max_n s True) =
        filter (\<lambda>r. BenchmarkResult.max_n r = k) (results s)" for k
    unfolding get_sorted_by_max_n_def by (rule sorted_builtin_stable)
  show "(get_fastest s = None) = (results s = [])"
    by (simp add: get_fastest_def split: list.splits)
  show "(get_highest_n s = None) = (results s = [])"
    by (simp add: get_highest_n_def split: list.splits)
  show "get_fastest s =
     find (\<lambda>r. BenchmarkResult.count r = Max (BenchmarkResult.count ` set (results s)))
       (results s)"
  proof (cases "results s")
    case Nil
    then show ?thesis by (simp add: get_fastest_def)
  next
    case (Cons r rs)
    then show ?thesis
      using max_builtin_find [of BenchmarkResult.count r rs]
      by (simp only: get_fastest_def list.case)
  qed
  show "get_highest_n s =
     find (\<lambda>r. BenchmarkResult.max_n r = Max (BenchmarkResult.max_n ` set (results s)))
       (results s)"
  proof (cases "results s")
    case Nil
    then show ?thesis by (simp add: get_highest_n_def)
  next
    case (Cons r rs)
    then show ?thesis
      using max_builtin_find [of BenchmarkResult.max_n r rs]
      by (simp only: get_highest_n_def list.case)
  qed
qed


lemma summary_views_example:
  "get_sorted_by_count
     \<lparr>results = [example_result ''a'' 3 2, example_result ''b'' 5 4,
                 example_result ''c'' 5 9, example_result ''d'' 1 0],
      total_duration = 4, timestamp = ()\<rparr> True =
     [example_result ''b'' 5 4, example_result ''c'' 5 9,
      example_result ''a'' 3 2, example_result ''d'' 1 0] \<and>
   get_fastest
     \<lparr>results = [example_result ''a'' 3 2, example_result ''b'' 5 4,
                 example_result ''c'' 5 9, example_result ''d'' 1 0],
      total_duration = 4, timestamp = ()\<rparr> = Some (example_result ''b'' 5 4) \<and>
   get_highest_n
     \<lparr>results = [example_result ''a'' 3 2, example_result ''b'' 5 4,
                 example_result ''c'' 5 9, example_result ''d'' 1 0],
      total_duration = 4, timestamp = ()\<rparr> = Some (example_result ''c'' 5 9)"
  by (simp add: get_sorted_by_count_def get_fastest_def get_highest_n_def
      sorted_builtin_def example_result_def)

text \<open>
  C4, as the code has it. When \<^verbatim>\<open>setup()\<close> raises an exception \<open>e\<close> (an instance of \<^verbatim>\<open>Exception\<close>, which is what
  the \<^verbatim>\<open>except\<close> clause catches), \<open>run_single\<close> returns a result with \<open>count = 0\<close>,
  \<open>max_n = 0\<close>, \<open>duration = 0\<close>, the error \<^verbatim>\<open>Setup failed: \<close> followed by \<^verbatim>\<open>str(e)\<close>, and the
  technique's name, description and complexities; the only call made is the one of
  \<^verbatim>\<open>setup()\<close>: neither \<^verbatim>\<open>calculate\<close> nor \<^verbatim>\<open>teardown()\<close> is called.
\<close>

theorem run_single_setup_failure:
  assumes "setup_hook technique = Some e" and "isa_Exception e"
  shows "run_single self clock now technique =
         Some (Inr \<lparr>technique_name = name technique,
                    description = FibonacciTechnique.description technique,
                    count = 0, max_n = 0, duration = 0,
                    time_complexity = FibonacciTechnique.time_complexity technique,
                    space_complexity = FibonacciTechnique.space_complexity technique,
                    error = Some (''Setup failed: '' @ message e), timestamp = now\<rparr>,
               [SetupCall])"
  using assms by (simp add: run_single_def make_result_def)

text \<open>
  C5, as the code has it. When \<^verbatim>\<open>setup()\<close> returns, the timed run returns the outcome \<open>timing_result\<close>, and
  \<^verbatim>\<open>teardown()\<close> raises an exception \<open>e\<close> (an instance of \<^verbatim>\<open>Exception\<close>), \<open>run_single\<close>
  returns normally: \<open>count\<close>, \<open>max_n\<close>, \<open>duration\<close> and \<open>error\<close> of the result are those of
  \<open>timing_result\<close>, and the result is the one obtained when \<^verbatim>\<open>teardown()\<close> raises nothing.
\<close>

theorem run_single_teardown_fault:
  assumes "setup_hook technique = None"
      and "run_for_duration (timer self) clock (calculate technique) 0
             (if validate self then Some (\<lambda>n result. Inr (validate_result n result)) else None) =
           Some (Inr timing_result, evs)"
      and "teardown_hook technique = Some e" and "isa_Exception e"
  shows "run_single self clock now technique =
         Some (Inr \<lparr>technique_name = name technique,
                    description = FibonacciTechnique.description technique,
                    count = TimingResult.count timing_result,
                    max_n = TimingResult.max_n timing_result,
                    duration = actual_duration timing_result,
                    time_complexity = FibonacciTechnique.time_complexity technique,
                    space_complexity = FibonacciTechnique.space_complexity technique,
                    error = TimingResult.error timing_result, timestamp = now\<rparr>,
               SetupCall # evs @ [TeardownCall]) \<and>
         run_single self clock now technique =
         run_single self clock now (technique\<lparr>teardown_hook := None\<rparr>)"
  using assms by (simp add: run_single_def make_result_def Let_def)


theorem run_single_setup_failure_witness:
  "run_single (BenchmarkRunner_init 1 True False) (\<lambda>k. real k / 2) ()
     (example_technique (Some (ValueError ''no cache'')) None) =
   Some (Inr \<lparr>technique_name = ''Reference'', description = ''Linear iteration'',
              count = 0, max_n = 0, duration = 0,
              time_complexity = ''O(n)'', space_complexity = ''O(1)'',
              error = Some ''Setup failed: no cache'', timestamp = ()\<rparr>,
         [SetupCall])"
proof -
  have s: "setup_hook (example_technique (Some (ValueError ''no cache'')) None) =
           Some (ValueError ''no cache'')"
    by (simp add: example_technique_def)
  have x: "isa_Exception (ValueError ''no cache'')"
    by (simp add: ValueError_def)
  show ?thesis
    using run_single_setup_failure [OF s x, of "BenchmarkRunner_init 1 True False"
        "\<lambda>k. real k / 2" "()"]
    by (simp add: example_technique_def ValueError_def)
qed

text \<open>
  A \<^verbatim>\<open>setup()\<close> that raises \<^verbatim>\<open>SystemExit\<close> is not caught by \<^verbatim>\<open>except Exception\<close>: the
  exception leaves \<open>run_single\<close> and no result with \<^verbatim>\<open>Setup failed: 1\<close> is returned.
\<close>

theorem run_single_setup_counterexample:
  "run_single (BenchmarkRunner_init 1 True False) (\<lambda>k. real k / 2) ()
     (example_technique (Some (SystemExit ''1'')) None) =
   Some (Inl (SystemExit ''1''), [SetupCall]) \<and>
   run_single (BenchmarkRunner_init 1 True False) (\<lambda>k. real k / 2) ()
     (example_technique (Some (SystemExit ''1'')) None) \<noteq>
   Some (Inr \<lparr>technique_name = ''Reference'', description = ''Linear iteration'',
              count = 0, max_n = 0, duration = 0,
              time_complexity = ''O(n)'', space_complexity = ''O(1)'',
              error = Some ''Setup failed: 1'', timestamp = ()\<rparr>,
         [SetupCall])"
  by (simp add: run_single_def example_technique_def SystemExit_def)

theorem run_single_teardown_fault_witness:
  "run_single (BenchmarkRunner_init 1 True False) (\<lambda>k. real k / 2) ()
     (example_technique None (Some (ValueError ''cleanup''))) =
   Some (Inr \<lparr>technique_name = ''Reference'', description = ''Linear iteration'',
              count = 1, max_n = 0, duration = 3 / 2,
              time_complexity = ''O(n)'', space_complexity = ''O(1)'',
              error = None, timestamp = ()\<rparr>,
         [SetupCall, Calculate 0, Validate 0, TeardownCall]) \<and>
   run_single (BenchmarkRunner_init 1 True False) (\<lambda>k. real k / 2) ()
     (example_technique None (Some (ValueError ''cleanup''))) =
   run_single (BenchmarkRunner_init 1 True False) (\<lambda>k. real k / 2) ()
     (example_technique None None)"
proof -
  let ?T = "example_technique None (Some (ValueError ''cleanup''))"
  let ?R = "BenchmarkRunner_init 1 True False"
  have s: "setup_hook ?T = None"
    by (simp add: example_technique_def)
  have t: "teardown_hook ?T = Some (ValueError ''cleanup'')"
    by (simp add: example_technique_def)
  have x: "isa_Exception (ValueError ''cleanup'')"
    by (simp add: ValueError_def)
  have k: "KNOWN_FIBONACCI 0 = Some 0"
    by (simp add: KNOWN_FIBONACCI_def KNOWN_FIBONACCI_items_def)
  have r: "run_for_duration (timer ?R) (\<lambda>k. real k / 2) (calculate ?T) 0
             (if validate ?R then Some (\<lambda>n result. Inr (validate_result n result)) else None) =
           Some (Inr \<lparr>TimingResult.count = 1, max_n = 0, actual_duration = 3 / 2, error = None\<rparr>,
                 [Calculate 0, Validate 0])"
    by (simp add: run_for_duration_unfold while_loop.simps BenchmarkRunner_init_def
        example_technique_def compute_fibonacci_reference_def validate_result_def k)
  have u: "?T\<lparr>teardown_hook := None\<rparr> = example_technique None None"
    by (simp add: example_technique_def)
  have f: "name ?T = ''Reference''"
    "FibonacciTechnique.description ?T = ''Linear iteration''"
    "FibonacciTechnique.time_complexity ?T = ''O(n)''"
    "FibonacciTechnique.space_complexity ?T = ''O(1)''"
    by (simp_all add: example_technique_def)
  show ?thesis
    using run_single_teardown_fault [OF s r t x, of "()"]
    unfolding u f TimingResult.select_convs append.simps .
qed

text \<open>
  A \<^verbatim>\<open>teardown()\<close> that raises \<^verbatim>\<open>SystemExit\<close> is not swallowed: the exception leaves
  \<open>run_single\<close> after a timed run that completed one iteration, where the same technique
  with a \<^verbatim>\<open>teardown()\<close> that raises nothing returns the result of that run.
\<close>

theorem run_single_teardown_counterexample:
  "run_single (BenchmarkRunner_init 1 True False) (\<lambda>k. real k / 2) ()
     (example_technique None (Some (SystemExit ''1''))) =
   Some (Inl (SystemExit ''1''), [SetupCall, Calculate 0, Validate 0, TeardownCall]) \<and>
   run_single (BenchmarkRunner_init 1 True False) (\<lambda>k. real k / 2) ()
     (example_technique None None) =
   Some (Inr \<lparr>technique_name = ''Reference'', description = ''Linear iteration'',
              count = 1, max_n = 0, duration = 3 / 2,
              time_complexity = ''O(n)'', space_complexity = ''O(1)'',
              error = None, timestamp = ()\<rparr>,
         [SetupCall, Calculate 0, Validate 0, TeardownCall]) \<and>
   run_single (BenchmarkRunner_init 1 True False) (\<lambda>k. real k / 2) ()
     (example_technique None (Some (SystemExit ''1''))) \<noteq>
   run_single (BenchmarkRunner_init 1 True False) (\<lambda>k. real k / 2) ()
     (example_technique None None)"
proof -
  have k: "KNOWN_FIBONACCI 0 = Some 0"
    by (simp add: KNOWN_FIBONACCI_def KNOWN_FIBONACCI_items_def)
  have r: "run_for_duration \<lparr>PrecisionTimer.duration = 1\<rparr> (\<lambda>k. real k / 2)
             compute_fibonacci_reference 0 (Some (\<lambda>n result. Inr (validate_result n result))) =
           Some (Inr \<lparr>TimingResult.count = 1, max_n = 0, actual_duration = 3 / 2, error = None\<rparr>,
                 [Calculate 0, Validate 0])"
    by (simp add: run_for_duration_unfold while_loop.simps
        compute_fibonacci_reference_def validate_result_def k)
  show ?thesis
    by (simp add: run_single_def make_result_def BenchmarkRunner_init_def
        example_technique_def SystemExit_def r)
qed

section \<open>Termination and exceptions that are not caught\<close>

text \<open>
  The loop ends as soon as a clock reading is no longer inside the duration, so
  \<open>run_for_duration\<close> returns whenever the clock reaches the deadline at some reading.
\<close>

lemma run_for_duration_returns:
  assumes "\<not> clock (Suc d) - clock 0 < PrecisionTimer.duration self"
  shows "\<exists>res. run_for_duration self clock func start_n validate_func = Some res"
proof -
  from assms have "\<not> clock (1 + d) - clock 0 < PrecisionTimer.duration self" by simp
  from while_loop_returns
    [where clock = clock and k = 1 and d = d and st = "clock 0"
       and dur = "PrecisionTimer.duration self", OF this]
  obtain y where
    "while_loop clock (PrecisionTimer.duration self) func validate_func (clock 0) 1 start_n 0 [] =
       Some y"
    by blast
  then show ?thesis
    by (auto simp: run_for_duration_unfold split: prod.splits option.splits sum.splits)
qed

text \<open>
  An exception that is not an instance of \<^verbatim>\<open>Exception\<close> (such as \<^verbatim>\<open>KeyboardInterrupt\<close> or
  \<^verbatim>\<open>SystemExit\<close>) is caught by no clause and leaves \<open>run_single\<close>.
\<close>

lemma run_single_setup_propagates:
  assumes "setup_hook technique = Some e" and "\<not> isa_Exception e"
  shows "run_single self clock now technique = Some (Inl e, [SetupCall])"
  using assms by (simp add: run_single_def)

lemma run_single_teardown_propagates:
  assumes "setup_hook technique = None"
      and "run_for_duration (timer self) clock (calculate technique) 0
             (if validate self then Some (\<lambda>n result. Inr (validate_result n result)) else None) =
           Some (Inr timing_result, evs)"
      and "teardown_hook technique = Some e" and "\<not> isa_Exception e"
  shows "run_single self clock now technique = Some (Inl e, SetupCall # evs @ [TeardownCall])"
  using assms by (simp add: run_single_def Let_def)

end
